theory Spec2Isabelle
  imports Main "HOL-Library.Multiset"
begin

section \<open>WikiQuiz: a shallow embedding of \<^verbatim>\<open>src/project/main.py\<close>\<close>

text \<open>
  The program is a small web backend: \<^verbatim>\<open>POST /generate\<close> scrapes a page, builds a
  fixed two-question quiz from its title, and stores one row per URL;
  \<^verbatim>\<open>GET /quizzes\<close> lists the rows, \<^verbatim>\<open>GET /quizzes/{id}\<close> reads one back.

  Conventions of the model:
  \<^item> a Python \<^verbatim>\<open>str\<close> is a \<open>string\<close>; one \<open>char\<close> stands for one code point, so
    \<open>length\<close> is Python's \<^verbatim>\<open>len\<close> and \<open>take n\<close> is the slice \<^verbatim>\<open>[:n]\<close>;
  \<^item> dynamically typed Python values (the question dicts, the topic list, the JSON
    column) are values of the datatype \<open>pyval\<close>; a dict is an association list in
    insertion order;
  \<^item> a raised exception is the \<open>Inl\<close> branch of a sum; the handlers return the
    response, or the failure, together with the new state of the world;
  \<^item> everything outside the program (the web, the parsed page, the clock of the
    database server, the availability of the storage engine) is a parameter, the
    record \<open>env\<close>;
  \<^item> the table \<^verbatim>\<open>quizzes\<close> is the list of its rows in insertion order; the state also
    tracks which database sessions are open.
\<close>

subsection \<open>Python values and exceptions\<close>

datatype pyval =
    PyStr string
  | PyList "pyval list"
  | PyDict "(string \<times> pyval) list"

text \<open>Every exception carries the text that \<^verbatim>\<open>str(e)\<close> returns.\<close>

datatype exn =
    RequestException string
  | AttributeError string
  | Exception string
  | OperationalError string
  | IntegrityError string
  | InvalidRequestError string
  | OverflowError string

fun str_exn :: "exn \<Rightarrow> string" where
  "str_exn (RequestException m) = m"
| "str_exn (AttributeError m) = m"
| "str_exn (Exception m) = m"
| "str_exn (OperationalError m) = m"
| "str_exn (IntegrityError m) = m"
| "str_exn (InvalidRequestError m) = m"
| "str_exn (OverflowError m) = m"

text \<open>
  What a request handler can end with instead of a response: an \<^verbatim>\<open>HTTPException\<close> with
  its status code and detail, or an exception that nothing in the handler catches.
\<close>

datatype failure =
    HTTPException nat string
  | Unhandled exn

subsection \<open>The environment\<close>

text \<open>
  The parsed page, as far as the scraper looks at it: the text of the first \<^verbatim>\<open>h1\<close>
  (\<^verbatim>\<open>soup.find("h1")\<close> is \<^verbatim>\<open>None\<close> when there is none) and the texts of the elements
  selected by \<^verbatim>\<open>div.mw-parser-output > p\<close>, in document order.
\<close>

record page =
  h1 :: "string option"
  paragraphs :: "string list"

text \<open>
  \<^item> \<open>http_get u\<close>: the outcome of \<^verbatim>\<open>requests.get\<close>, \<^verbatim>\<open>raise_for_status\<close> and the parser
    on the URL \<open>u\<close>: \<open>Inl m\<close> when one of them raises an exception whose string form is
    \<open>m\<close>, the parsed page otherwise;
  \<^item> \<open>now\<close>: the value of \<^verbatim>\<open>func.now()\<close> when a row is inserted during this request;
  \<^item> \<open>db_down\<close>: \<open>Some m\<close> when the storage engine is unavailable during this
    request, so that every statement sent to it raises an error with string form \<open>m\<close>;
  \<^item> \<open>unique_violation\<close>: the string form of the error the engine raises when an
    insert violates the unique constraint on \<^verbatim>\<open>quizzes.url\<close>.
\<close>

record env =
  http_get :: "string \<Rightarrow> string + page"
  now :: int
  db_down :: "string option"
  unique_violation :: string

subsection \<open>The table, the schemas and the state\<close>

text \<open>
  \<open>QuizEntry\<close> is the object \<^verbatim>\<open>Quiz(url=..., title=..., content_excerpt=..., quiz_data=...)\<close>
  before it is saved; \<open>Quiz\<close> is a row, with the columns \<^verbatim>\<open>id\<close> (here \<open>qid\<close>) and
  \<^verbatim>\<open>created_at\<close> that the database assigns. The column \<^verbatim>\<open>quiz_data\<close> holds the JSON
  object that the only writer stores, a dict.
\<close>

record QuizEntry =
  url :: string
  title :: string
  content_excerpt :: string
  quiz_data :: "(string \<times> pyval) list"

record Quiz = QuizEntry +
  qid :: int
  created_at :: int

record QuizCreate =
  data_url :: string

text \<open>The dict that \<^verbatim>\<open>generate_quiz\<close> and \<^verbatim>\<open>get_quiz\<close> return (schema \<^verbatim>\<open>QuizResponse\<close>).\<close>

record QuizResponse =
  resp_id :: int
  resp_url :: string
  resp_title :: string
  resp_quiz_data :: pyval
  resp_related_topics :: pyval

text \<open>One element of the list that \<^verbatim>\<open>list_quizzes\<close> returns.\<close>

record QuizSummary =
  sum_id :: int
  sum_title :: string
  sum_url :: string
  sum_created_at :: int

text \<open>
  The state: the rows of the table, the handles of the sessions that are open, and
  the number of sessions created so far (the next handle).
\<close>

record world =
  rows :: "Quiz list"
  live :: "nat set"
  opened :: nat

definition init_world :: world where
  "init_world = \<lparr>rows = [], live = {}, opened = 0\<rparr>"

subsection \<open>\<^verbatim>\<open>scrape_wikipedia\<close>\<close>

fun join :: "string \<Rightarrow> string list \<Rightarrow> string" where
  "join sep [] = []"
| "join sep [x] = x"
| "join sep (x # y # ys) = x @ sep @ join sep (y # ys)"

text \<open>The message of the \<^verbatim>\<open>AttributeError\<close> that \<^verbatim>\<open>None.text\<close> raises.\<close>

definition none_has_no_text :: string where
  "none_has_no_text =
     [CHR 0x27] @ ''NoneType'' @ [CHR 0x27] @ '' object has no attribute ''
       @ [CHR 0x27] @ ''text'' @ [CHR 0x27]"

text \<open>The body of the \<^verbatim>\<open>try\<close> block.\<close>

definition scrape_try :: "env \<Rightarrow> string \<Rightarrow> exn + (string \<times> string)" where
  "scrape_try e u =
     (case http_get e u of
        Inl m \<Rightarrow> Inl (RequestException m)
      | Inr soup \<Rightarrow>
          (case h1 soup of
             None \<Rightarrow> Inl (AttributeError none_has_no_text)
           | Some t \<Rightarrow>
               (let content = join [CHR 0x0A] (paragraphs soup)
                in Inr (t, take 8000 content))))"

text \<open>\<^verbatim>\<open>except Exception as e: raise Exception(f"Error scraping Wikipedia: {str(e)}")\<close>\<close>

definition scrape_wikipedia :: "env \<Rightarrow> string \<Rightarrow> exn + (string \<times> string)" where
  "scrape_wikipedia e u =
     (case scrape_try e u of
        Inl ex \<Rightarrow> Inl (Exception (''Error scraping Wikipedia: '' @ str_exn ex))
      | Inr r \<Rightarrow> Inr r)"

subsection \<open>\<^verbatim>\<open>generate_quiz_with_gemini\<close>\<close>

definition generate_quiz_with_gemini :: "string \<Rightarrow> string \<Rightarrow> pyval \<times> pyval" where
  "generate_quiz_with_gemini ttl content =
     (let quiz_data = PyList
        [ PyDict
            [ (''question'', PyStr (''What is '' @ ttl @ '' best known for?'')),
              (''options'', PyDict [(''A'', PyStr ''Science''), (''B'', PyStr ''Music''),
                                    (''C'', PyStr ''Politics''), (''D'', PyStr ''Art'')]),
              (''correct_answer'', PyStr ''A''),
              (''explanation'',
                 PyStr (ttl @ '' is primarily known for contributions in science.'')),
              (''difficulty'', PyStr ''easy'') ],
          PyDict
            [ (''question'', PyStr (''Which field did '' @ ttl @ '' contribute to?'')),
              (''options'', PyDict [(''A'', PyStr ''Mathematics''), (''B'', PyStr ''Cooking''),
                                    (''C'', PyStr ''Fashion''), (''D'', PyStr ''Sports'')]),
              (''correct_answer'', PyStr ''A''),
              (''explanation'',
                 PyStr (ttl @ '' made major contributions in mathematics and computing.'')),
              (''difficulty'', PyStr ''medium'') ] ];
        related_topics = PyList
          [PyStr ''Computer science'', PyStr ''Cryptography'',
           PyStr ''Artificial intelligence'']
      in (quiz_data, related_topics))"

subsection \<open>The session and the storage engine\<close>

text \<open>\<^verbatim>\<open>SessionLocal()\<close> opens a session; \<^verbatim>\<open>db.close()\<close> closes it.\<close>

definition SessionLocal :: "world \<Rightarrow> nat \<times> world" where
  "SessionLocal w = (opened w, w\<lparr>live := insert (opened w) (live w), opened := opened w + 1\<rparr>)"

definition close :: "nat \<Rightarrow> world \<Rightarrow> world" where
  "close db w = w\<lparr>live := live w - {db}\<rparr>"

text \<open>
  The integer primary key: one more than the largest \<^verbatim>\<open>id\<close> in the table, 1 in an
  empty table. Rows are never deleted, so no \<^verbatim>\<open>id\<close> is given twice.
\<close>

definition next_id :: "Quiz list \<Rightarrow> int" where
  "next_id qs = fold max (map qid qs) 0 + 1"

text \<open>
  \<^verbatim>\<open>db.add(quiz_entry); db.commit()\<close>: the insert. The engine refuses a second row
  with the same \<^verbatim>\<open>url\<close> (\<^verbatim>\<open>unique=True\<close>); otherwise it appends the row with a fresh
  \<^verbatim>\<open>id\<close> and the server's time, and the object learns its \<^verbatim>\<open>id\<close>.
\<close>

definition commit :: "env \<Rightarrow> QuizEntry \<Rightarrow> world \<Rightarrow> exn + (int \<times> world)" where
  "commit e quiz_entry w =
     (case db_down e of
        Some m \<Rightarrow> Inl (OperationalError m)
      | None \<Rightarrow>
          if url quiz_entry \<in> set (map url (rows w))
          then Inl (IntegrityError (unique_violation e))
          else
            (let i = next_id (rows w);
                 r = \<lparr>url = url quiz_entry, title = title quiz_entry,
                      content_excerpt = content_excerpt quiz_entry,
                      quiz_data = quiz_data quiz_entry,
                      qid = i, created_at = now e\<rparr>
             in Inr (i, w\<lparr>rows := rows w @ [r]\<rparr>)))"

text \<open>
  A Python \<^verbatim>\<open>int\<close> is unbounded, an SQLite integer has 64 bits. When a statement is
  given an \<^verbatim>\<open>int\<close> as a parameter, the driver of the default database (\<^verbatim>\<open>sqlite3\<close>)
  converts it before the statement reaches the engine, and raises \<^verbatim>\<open>OverflowError\<close>
  when it does not fit.
\<close>

definition bind_int :: "int \<Rightarrow> exn + int" where
  "bind_int i =
     (if - 9223372036854775808 \<le> i \<and> i \<le> 9223372036854775807 then Inr i
      else Inl (OverflowError ''Python int too large to convert to SQLite INTEGER''))"

text \<open>
  \<^verbatim>\<open>db.refresh(quiz_entry)\<close>: the row is read again by its primary key, which is a
  parameter of the statement.
\<close>

definition refresh :: "env \<Rightarrow> int \<Rightarrow> world \<Rightarrow> exn + Quiz" where
  "refresh e i w =
     (case bind_int i of
        Inl ex \<Rightarrow> Inl ex
      | Inr i' \<Rightarrow>
          (case db_down e of
             Some m \<Rightarrow> Inl (OperationalError m)
           | None \<Rightarrow>
               (case find (\<lambda>q. qid q = i') (rows w) of
                  None \<Rightarrow> Inl (InvalidRequestError ''Could not refresh instance'')
                | Some q \<Rightarrow> Inr q)))"

text \<open>
  \<^verbatim>\<open>db.query(Quiz).order_by(Quiz.created_at.desc()).all()\<close>. Rows with equal timestamps
  come in the order the engine likes; here, in insertion order.
\<close>

definition query_all_desc :: "env \<Rightarrow> world \<Rightarrow> exn + Quiz list" where
  "query_all_desc e w =
     (case db_down e of
        Some m \<Rightarrow> Inl (OperationalError m)
      | None \<Rightarrow> Inr (sort_key (\<lambda>q. - created_at q) (rows w)))"

text \<open>
  \<^verbatim>\<open>db.query(Quiz).filter(Quiz.id == quiz_id).first()\<close>: \<^verbatim>\<open>quiz_id\<close> is a parameter of
  the statement.
\<close>

definition query_first :: "env \<Rightarrow> int \<Rightarrow> world \<Rightarrow> exn + Quiz option" where
  "query_first e quiz_id w =
     (case bind_int quiz_id of
        Inl ex \<Rightarrow> Inl ex
      | Inr i \<Rightarrow>
          (case db_down e of
             Some m \<Rightarrow> Inl (OperationalError m)
           | None \<Rightarrow> Inr (find (\<lambda>q. qid q = i) (rows w))))"

subsection \<open>The endpoints\<close>

text \<open>The \<^verbatim>\<open>try\<close> block of \<^verbatim>\<open>generate_quiz\<close>, steps 1 to 3 and the returned dict.\<close>

definition generate_quiz_try :: "env \<Rightarrow> QuizCreate \<Rightarrow> world \<Rightarrow> (exn + QuizResponse) \<times> world" where
  "generate_quiz_try e data w =
     (case scrape_wikipedia e (data_url data) of
        Inl ex \<Rightarrow> (Inl ex, w)
      | Inr (ttl, content) \<Rightarrow>
          (let (quiz_data', related_topics) = generate_quiz_with_gemini ttl content;
               quiz_entry = \<lparr>url = data_url data, title = ttl,
                              content_excerpt = take 400 content,
                              quiz_data = [(''questions'', quiz_data'),
                                           (''related_topics'', related_topics)]\<rparr>
           in case commit e quiz_entry w of
                Inl ex \<Rightarrow> (Inl ex, w)
              | Inr (i, w') \<Rightarrow>
                  (case refresh e i w' of
                     Inl ex \<Rightarrow> (Inl ex, w')
                   | Inr q \<Rightarrow>
                       (Inr \<lparr>resp_id = qid q, resp_url = url q, resp_title = title q,
                             resp_quiz_data = quiz_data',
                             resp_related_topics = related_topics\<rparr>, w'))))"

text \<open>
  \<^verbatim>\<open>db = SessionLocal()\<close>, the \<^verbatim>\<open>try\<close> block,
  \<^verbatim>\<open>except Exception as e: raise HTTPException(status_code=500, detail=str(e))\<close> and
  \<^verbatim>\<open>finally: db.close()\<close>.
\<close>

definition generate_quiz :: "env \<Rightarrow> QuizCreate \<Rightarrow> world \<Rightarrow> (failure + QuizResponse) \<times> world" where
  "generate_quiz e data w =
     (let (db, w1) = SessionLocal w;
          (r, w2) = generate_quiz_try e data w1;
          r' = (case r of
                  Inl ex \<Rightarrow> Inl (HTTPException 500 (str_exn ex))
                | Inr resp \<Rightarrow> Inr resp)
      in (r', close db w2))"

definition summary :: "Quiz \<Rightarrow> QuizSummary" where
  "summary q = \<lparr>sum_id = qid q, sum_title = title q, sum_url = url q,
                sum_created_at = created_at q\<rparr>"

text \<open>
  \<^verbatim>\<open>list_quizzes\<close>: the session is opened, the query runs, the session is closed, the
  summaries are returned. There is no \<^verbatim>\<open>try\<close>: when the query raises, the exception
  leaves the handler at once and \<^verbatim>\<open>db.close()\<close> is not reached.
\<close>

definition list_quizzes :: "env \<Rightarrow> world \<Rightarrow> (failure + QuizSummary list) \<times> world" where
  "list_quizzes e w =
     (let (db, w1) = SessionLocal w
      in case query_all_desc e w1 of
           Inl ex \<Rightarrow> (Inl (Unhandled ex), w1)
         | Inr quizzes \<Rightarrow>
             (let w2 = close db w1
              in (Inr (map summary quizzes), w2)))"

text \<open>\<^verbatim>\<open>d.get(k, default)\<close> on a dict.\<close>

definition dict_get :: "(string \<times> pyval) list \<Rightarrow> string \<Rightarrow> pyval \<Rightarrow> pyval" where
  "dict_get d k dflt = (case map_of d k of None \<Rightarrow> dflt | Some v \<Rightarrow> v)"

text \<open>
  \<^verbatim>\<open>get_quiz\<close>: as in \<^verbatim>\<open>list_quizzes\<close> the query is not inside a \<^verbatim>\<open>try\<close>, so an
  exception of the query (of the engine, or of the driver for a \<^verbatim>\<open>quiz_id\<close> that does
  not fit) leaves the handler as it is; the 404 is raised after \<^verbatim>\<open>db.close()\<close>.
\<close>

definition get_quiz :: "env \<Rightarrow> int \<Rightarrow> world \<Rightarrow> (failure + QuizResponse) \<times> world" where
  "get_quiz e quiz_id w =
     (let (db, w1) = SessionLocal w
      in case query_first e quiz_id w1 of
           Inl ex \<Rightarrow> (Inl (Unhandled ex), w1)
         | Inr quiz \<Rightarrow>
             (let w2 = close db w1
              in case quiz of
                   None \<Rightarrow> (Inl (HTTPException 404 ''Quiz not found''), w2)
                 | Some q \<Rightarrow>
                     (let quiz_data' = dict_get (quiz_data q) ''questions'' (PyList []);
                          related_topics = dict_get (quiz_data q) ''related_topics'' (PyList [])
                      in (Inr \<lparr>resp_id = qid q, resp_url = url q, resp_title = title q,
                               resp_quiz_data = quiz_data',
                               resp_related_topics = related_topics\<rparr>, w2))))"

subsection \<open>Sequences of requests\<close>

text \<open>
  The server handles requests one after the other, each in its own environment; only
  the state is carried from one request to the next.
\<close>

datatype request =
    PostGenerate env QuizCreate
  | GetQuizzes env
  | GetQuiz env int

fun step :: "request \<Rightarrow> world \<Rightarrow> world" where
  "step (PostGenerate e data) w = snd (generate_quiz e data w)"
| "step (GetQuizzes e) w = snd (list_quizzes e w)"
| "step (GetQuiz e quiz_id) w = snd (get_quiz e quiz_id w)"

fun run :: "request list \<Rightarrow> world \<Rightarrow> world" where
  "run [] w = w"
| "run (r # rs) w = run rs (step r w)"

subsection \<open>Properties of values\<close>

text \<open>
  A question record names one of its own options: it is a dict whose
  \<^verbatim>\<open>correct_answer\<close> is a string that is a key of its \<^verbatim>\<open>options\<close> dict.
\<close>



definition answer_is_option :: "pyval \<Rightarrow> bool" where
  "answer_is_option q =
     (case q of
        PyDict d \<Rightarrow>
          (case map_of d ''options'' of
             Some (PyDict opts) \<Rightarrow>
               (case map_of d ''correct_answer'' of
                  Some (PyStr a) \<Rightarrow> a \<in> set (map fst opts)
                | _ \<Rightarrow> False)
           | _ \<Rightarrow> False)
      | _ \<Rightarrow> False)"

subsection \<open>Concrete inputs\<close>

text \<open>
  Two pages, the second one without paragraphs; an environment that serves them and
  answers every other URL with an HTTP error; the same environment ten minutes
  later; the same environment with the storage engine unavailable.
\<close>

definition example_url :: string where
  "example_url = ''https://en.wikipedia.org/wiki/Alan_Turing''"

definition example_url2 :: string where
  "example_url2 = ''https://en.wikipedia.org/wiki/Ada_Lovelace''"

definition example_page :: page where
  "example_page = \<lparr>h1 = Some ''Alan Turing'',
     paragraphs = [''Alan Turing was a mathematician.'', ''He worked at Bletchley Park.'']\<rparr>"

definition example_page2 :: page where
  "example_page2 = \<lparr>h1 = Some ''Ada Lovelace'', paragraphs = []\<rparr>"

definition example_env :: env where
  "example_env = \<lparr>http_get = (\<lambda>u. if u = example_url then Inr example_page
                                    else if u = example_url2 then Inr example_page2
                                    else Inl ''404 Client Error: Not Found''),
     now = 1700000000, db_down = None,
     unique_violation = ''UNIQUE constraint failed: quizzes.url''\<rparr>"

definition example_data :: QuizCreate where
  "example_data = \<lparr>data_url = example_url\<rparr>"

definition example_data2 :: QuizCreate where
  "example_data2 = \<lparr>data_url = example_url2\<rparr>"

definition later_env :: env where
  "later_env = example_env\<lparr>now := 1700000600\<rparr>"

definition locked_env :: env where
  "locked_env = example_env\<lparr>db_down := Some ''database is locked''\<rparr>"

definition one_quiz_world :: world where
  "one_quiz_world = run [PostGenerate example_env example_data] init_world"

definition two_quiz_world :: world where
  "two_quiz_world = run [PostGenerate later_env example_data2] one_quiz_world"

section \<open>Auxiliary facts\<close>

subsection \<open>Identifiers and lookups\<close>

lemma fold_max_ge_init: "(a::int) \<le> fold max xs a"
  by (induction xs arbitrary: a) (auto intro: order_trans [OF max.cobounded2])

lemma le_fold_max: "x \<in> set xs \<Longrightarrow> x \<le> fold max xs (a::int)"
proof (induction xs arbitrary: a)
  case Nil
  then show ?case by simp
next
  case (Cons y ys)
  show ?case
  proof (cases "x = y")
    case True
    have "y \<le> max y a" by simp
    also have "\<dots> \<le> fold max ys (max y a)" by (rule fold_max_ge_init)
    finally show ?thesis using True by simp
  next
    case False
    with Cons.prems have "x \<in> set ys" by simp
    then show ?thesis using Cons.IH by simp
  qed
qed


lemma next_id_pos: "1 \<le> next_id qs"
  using fold_max_ge_init [of 0 "map qid qs"] by (simp add: next_id_def)


lemma bind_int_fits:
  "- 9223372036854775808 \<le> i \<Longrightarrow> i \<le> 9223372036854775807 \<Longrightarrow> bind_int i = Inr i"
  by (simp add: bind_int_def)

lemma bind_int_overflow:
  "\<not> (- 9223372036854775808 \<le> i \<and> i \<le> 9223372036854775807) \<Longrightarrow>
   bind_int i = Inl (OverflowError ''Python int too large to convert to SQLite INTEGER'')"
  by (simp add: bind_int_def)

lemma bind_next_id:
  "next_id qs \<le> 9223372036854775807 \<Longrightarrow> bind_int (next_id qs) = Inr (next_id qs)"
  using next_id_pos [of qs] by (simp add: bind_int_def)

lemma qid_less_next_id: "q \<in> set qs \<Longrightarrow> qid q < next_id qs"
proof -
  assume "q \<in> set qs"
  then have "qid q \<in> set (map qid qs)" by simp
  then have "qid q \<le> fold max (map qid qs) 0" by (rule le_fold_max)
  then show ?thesis by (simp add: next_id_def)
qed

lemma find_append_fresh:
  "\<forall>q \<in> set qs. \<not> P q \<Longrightarrow> P r \<Longrightarrow> find P (qs @ [r]) = Some r"
  by (induction qs) auto

lemma find_append_old:
  "find P qs = Some q \<Longrightarrow> find P (qs @ zs) = Some q"
  by (induction qs) (auto split: if_splits)

lemma find_next_id: "qid r = next_id qs \<Longrightarrow> find (\<lambda>q. qid q = next_id qs) (qs @ [r]) = Some r"
  by (rule find_append_fresh) (auto dest: qid_less_next_id)

subsection \<open>The paths through \<^verbatim>\<open>generate_quiz\<close>\<close>

text \<open>
  The handler has five outcomes: the scraper raises; the engine is unavailable; the
  URL is already stored; the row is stored and the response returned; the row is
  stored with an \<^verbatim>\<open>id\<close> beyond 64 bits, which \<^verbatim>\<open>db.refresh\<close> cannot hand to the
  driver (a state that no sequence of requests reaches from the empty table). In
  all five the session it opened is closed.
\<close>

lemma fst_generate_quiz:
  "fst (generate_quiz e data w) =
     (case fst (generate_quiz_try e data (snd (SessionLocal w))) of
        Inl ex \<Rightarrow> Inl (HTTPException 500 (str_exn ex))
      | Inr resp \<Rightarrow> Inr resp)"
  by (simp add: generate_quiz_def split_beta Let_def)

lemma generate_quiz_scrape_fail:
  "scrape_wikipedia e (data_url data) = Inl ex \<Longrightarrow>
   generate_quiz e data w =
     (Inl (HTTPException 500 (str_exn ex)), w\<lparr>live := live w - {opened w}, opened := opened w + 1\<rparr>)"
  by (simp add: generate_quiz_def generate_quiz_try_def SessionLocal_def close_def)

lemma generate_quiz_down:
  "scrape_wikipedia e (data_url data) = Inr (ttl, content) \<Longrightarrow> db_down e = Some m \<Longrightarrow>
   generate_quiz e data w =
     (Inl (HTTPException 500 m), w\<lparr>live := live w - {opened w}, opened := opened w + 1\<rparr>)"
  by (simp add: generate_quiz_def generate_quiz_try_def SessionLocal_def close_def commit_def
      generate_quiz_with_gemini_def)

lemma generate_quiz_duplicate:
  "scrape_wikipedia e (data_url data) = Inr (ttl, content) \<Longrightarrow> db_down e = None \<Longrightarrow>
   data_url data \<in> url ` set (rows w) \<Longrightarrow>
   generate_quiz e data w =
     (Inl (HTTPException 500 (unique_violation e)),
      w\<lparr>live := live w - {opened w}, opened := opened w + 1\<rparr>)"
  by (simp add: generate_quiz_def generate_quiz_try_def SessionLocal_def close_def commit_def
      generate_quiz_with_gemini_def)

lemma generate_quiz_committed:
  assumes "scrape_wikipedia e (data_url data) = Inr (ttl, content)" and "db_down e = None"
    and "data_url data \<notin> url ` set (rows w)"
  shows "snd (generate_quiz e data w) =
      w\<lparr>rows := rows w @
           [\<lparr>url = data_url data, title = ttl, content_excerpt = take 400 content,
             quiz_data = [(''questions'', fst (generate_quiz_with_gemini ttl content)),
                          (''related_topics'', snd (generate_quiz_with_gemini ttl content))],
             qid = next_id (rows w), created_at = now e\<rparr>],
         live := live w - {opened w}, opened := opened w + 1\<rparr>"
  using assms
  by (simp add: generate_quiz_def generate_quiz_try_def SessionLocal_def close_def commit_def
      Let_def split_beta split: sum.splits)

lemma generate_quiz_stored:
  assumes "scrape_wikipedia e (data_url data) = Inr (ttl, content)" and "db_down e = None"
    and "data_url data \<notin> url ` set (rows w)"
    and "next_id (rows w) \<le> 9223372036854775807"
  shows "generate_quiz e data w =
     (Inr \<lparr>resp_id = next_id (rows w), resp_url = data_url data, resp_title = ttl,
           resp_quiz_data = fst (generate_quiz_with_gemini ttl content),
           resp_related_topics = snd (generate_quiz_with_gemini ttl content)\<rparr>,
      w\<lparr>rows := rows w @
           [\<lparr>url = data_url data, title = ttl, content_excerpt = take 400 content,
             quiz_data = [(''questions'', fst (generate_quiz_with_gemini ttl content)),
                          (''related_topics'', snd (generate_quiz_with_gemini ttl content))],
             qid = next_id (rows w), created_at = now e\<rparr>],
         live := live w - {opened w}, opened := opened w + 1\<rparr>)"
  using assms
  by (simp add: generate_quiz_def generate_quiz_try_def SessionLocal_def close_def commit_def
      refresh_def bind_next_id find_next_id Let_def split_beta)

lemma generate_quiz_id_overflow:
  assumes "scrape_wikipedia e (data_url data) = Inr (ttl, content)" and "db_down e = None"
    and "data_url data \<notin> url ` set (rows w)"
    and "\<not> next_id (rows w) \<le> 9223372036854775807"
  shows "fst (generate_quiz e data w) =
     Inl (HTTPException 500 ''Python int too large to convert to SQLite INTEGER'')"
  using assms
  by (simp add: generate_quiz_def generate_quiz_try_def SessionLocal_def close_def commit_def
      refresh_def bind_int_def Let_def split_beta)

lemma generate_quiz_Inr_cases:
  assumes "fst (generate_quiz e data w) = Inr resp"
  obtains ttl content where "scrape_wikipedia e (data_url data) = Inr (ttl, content)"
    and "db_down e = None" and "data_url data \<notin> url ` set (rows w)"
    and "next_id (rows w) \<le> 9223372036854775807"
proof (cases "scrape_wikipedia e (data_url data)")
  case (Inl ex)
  with assms show ?thesis by (simp add: generate_quiz_scrape_fail)
next
  case (Inr p)
  obtain ttl content where p: "p = (ttl, content)" by (cases p)
  show ?thesis
  proof (cases "db_down e")
    case (Some m)
    with assms Inr p show ?thesis by (simp add: generate_quiz_down)
  next
    case None
    show ?thesis
    proof (cases "data_url data \<in> url ` set (rows w)")
      case True
      with assms Inr p None show ?thesis by (simp add: generate_quiz_duplicate)
    next
      case False
      show ?thesis
      proof (cases "next_id (rows w) \<le> 9223372036854775807")
        case True
        with Inr p None False that show ?thesis by simp
      next
        case over: False
        from Inr p have "scrape_wikipedia e (data_url data) = Inr (ttl, content)" by simp
        from generate_quiz_id_overflow [OF this None False over] assms
        show ?thesis by simp
      qed
    qed
  qed
qed

lemma rows_generate_quiz:
  "rows (snd (generate_quiz e data w)) = rows w \<or>
   (\<exists>ttl content. scrape_wikipedia e (data_url data) = Inr (ttl, content) \<and>
      db_down e = None \<and> data_url data \<notin> url ` set (rows w) \<and>
      rows (snd (generate_quiz e data w)) = rows w @
        [\<lparr>url = data_url data, title = ttl, content_excerpt = take 400 content,
          quiz_data = [(''questions'', fst (generate_quiz_with_gemini ttl content)),
                       (''related_topics'', snd (generate_quiz_with_gemini ttl content))],
          qid = next_id (rows w), created_at = now e\<rparr>])"
proof (cases "scrape_wikipedia e (data_url data)")
  case (Inl ex)
  then show ?thesis by (simp add: generate_quiz_scrape_fail)
next
  case (Inr p)
  obtain ttl content where p: "p = (ttl, content)" by (cases p)
  show ?thesis
  proof (cases "db_down e")
    case (Some m)
    with Inr p show ?thesis by (simp add: generate_quiz_down)
  next
    case None
    show ?thesis
    proof (cases "data_url data \<in> url ` set (rows w)")
      case True
      with Inr p None show ?thesis by (simp add: generate_quiz_duplicate)
    next
      case False
      with Inr p None show ?thesis by (simp add: generate_quiz_committed)
    qed
  qed
qed

lemma generate_quiz_existing_url:
  assumes "data_url data \<in> url ` set (rows w)"
  shows "(\<exists>d. fst (generate_quiz e data w) = Inl (HTTPException 500 d)) \<and>
         rows (snd (generate_quiz e data w)) = rows w"
proof (cases "scrape_wikipedia e (data_url data)")
  case (Inl ex)
  then show ?thesis by (simp add: generate_quiz_scrape_fail)
next
  case (Inr p)
  obtain ttl content where p: "p = (ttl, content)" by (cases p)
  show ?thesis
  proof (cases "db_down e")
    case (Some m)
    with Inr p show ?thesis by (simp add: generate_quiz_down)
  next
    case None
    with Inr p assms show ?thesis by (simp add: generate_quiz_duplicate)
  qed
qed

lemma commit_duplicate:
  "db_down e = None \<Longrightarrow> url quiz_entry \<in> url ` set (rows w) \<Longrightarrow>
   commit e quiz_entry w = Inl (IntegrityError (unique_violation e))"
  by (simp add: commit_def)

subsection \<open>The read-only handlers\<close>

lemma rows_list_quizzes: "rows (snd (list_quizzes e w)) = rows w"
  by (simp add: list_quizzes_def query_all_desc_def SessionLocal_def close_def
      split: option.splits)

lemma rows_get_quiz: "rows (snd (get_quiz e quiz_id w)) = rows w"
  by (simp add: get_quiz_def query_first_def bind_int_def SessionLocal_def close_def Let_def
      split: option.splits)

lemma list_quizzes_up:
  "db_down e = None \<Longrightarrow>
   fst (list_quizzes e w) = Inr (map summary (sort_key (\<lambda>q. - created_at q) (rows w)))"
  by (simp add: list_quizzes_def query_all_desc_def SessionLocal_def close_def)

lemma get_quiz_up:
  "db_down e = None \<Longrightarrow> - 9223372036854775808 \<le> quiz_id \<Longrightarrow>
   quiz_id \<le> 9223372036854775807 \<Longrightarrow>
   fst (get_quiz e quiz_id w) =
     (case find (\<lambda>q. qid q = quiz_id) (rows w) of
        None \<Rightarrow> Inl (HTTPException 404 ''Quiz not found'')
      | Some q \<Rightarrow>
          Inr \<lparr>resp_id = qid q, resp_url = url q, resp_title = title q,
               resp_quiz_data = dict_get (quiz_data q) ''questions'' (PyList []),
               resp_related_topics = dict_get (quiz_data q) ''related_topics'' (PyList [])\<rparr>)"
  by (simp add: get_quiz_def query_first_def bind_int_def SessionLocal_def close_def
      split: option.splits)

lemma get_quiz_overflow:
  "\<not> (- 9223372036854775808 \<le> quiz_id \<and> quiz_id \<le> 9223372036854775807) \<Longrightarrow>
   get_quiz e quiz_id w =
     (Inl (Unhandled (OverflowError ''Python int too large to convert to SQLite INTEGER'')),
      w\<lparr>live := insert (opened w) (live w), opened := opened w + 1\<rparr>)"
  by (simp add: get_quiz_def query_first_def bind_int_overflow SessionLocal_def)

lemma list_quizzes_down:
  "db_down e = Some m \<Longrightarrow>
   list_quizzes e w = (Inl (Unhandled (OperationalError m)),
     w\<lparr>live := insert (opened w) (live w), opened := opened w + 1\<rparr>)"
  by (simp add: list_quizzes_def query_all_desc_def SessionLocal_def)

lemma get_quiz_down:
  "db_down e = Some m \<Longrightarrow> - 9223372036854775808 \<le> quiz_id \<Longrightarrow>
   quiz_id \<le> 9223372036854775807 \<Longrightarrow>
   get_quiz e quiz_id w = (Inl (Unhandled (OperationalError m)),
     w\<lparr>live := insert (opened w) (live w), opened := opened w + 1\<rparr>)"
  by (simp add: get_quiz_def query_first_def bind_int_def SessionLocal_def)

subsection \<open>Sequences of requests only append rows\<close>

lemma rows_step: "\<exists>zs. rows (step r w) = rows w @ zs"
proof (cases r)
  case (PostGenerate e data)
  then show ?thesis using rows_generate_quiz [of e data w] by auto
next
  case (GetQuizzes e)
  then show ?thesis by (simp add: rows_list_quizzes)
next
  case (GetQuiz e quiz_id)
  then show ?thesis by (simp add: rows_get_quiz)
qed

lemma rows_run: "\<exists>zs. rows (run rs w) = rows w @ zs"
proof (induction rs arbitrary: w)
  case Nil
  then show ?case by simp
next
  case (Cons r rs)
  obtain zs where "rows (step r w) = rows w @ zs" using rows_step by blast
  moreover obtain zs' where "rows (run rs (step r w)) = rows (step r w) @ zs'"
    using Cons.IH by blast
  ultimately show ?case by simp
qed

lemma length_scrape:
  "scrape_wikipedia e u = Inr (ttl, content) \<Longrightarrow> length content \<le> 8000"
  by (auto simp: scrape_wikipedia_def scrape_try_def Let_def split: sum.splits option.splits)

lemma excerpt_step:
  assumes "\<forall>q \<in> set (rows w). length (content_excerpt q) \<le> 400"
  shows "\<forall>q \<in> set (rows (step r w)). length (content_excerpt q) \<le> 400"
proof (cases r)
  case (PostGenerate e data)
  then show ?thesis using assms rows_generate_quiz [of e data w] by auto
next
  case (GetQuizzes e)
  then show ?thesis using assms by (simp add: rows_list_quizzes)
next
  case (GetQuiz e quiz_id)
  then show ?thesis using assms by (simp add: rows_get_quiz)
qed

lemma excerpt_run:
  "\<forall>q \<in> set (rows w). length (content_excerpt q) \<le> 400 \<Longrightarrow>
   \<forall>q \<in> set (rows (run rs w)). length (content_excerpt q) \<le> 400"
proof (induction rs arbitrary: w)
  case Nil
  then show ?case by simp
next
  case (Cons r rs)
  from Cons.prems have "\<forall>q \<in> set (rows (step r w)). length (content_excerpt q) \<le> 400"
    by (rule excerpt_step)
  then show ?case using Cons.IH by simp
qed

lemma distinct_generate_quiz:
  assumes "distinct (map url (rows w))"
  shows "distinct (map url (rows (snd (generate_quiz e data w))))"
  using assms rows_generate_quiz [of e data w] by auto

lemma distinct_step:
  "distinct (map url (rows w)) \<Longrightarrow> distinct (map url (rows (step r w)))"
  by (cases r) (simp_all add: distinct_generate_quiz rows_list_quizzes rows_get_quiz)

lemma distinct_run:
  "distinct (map url (rows w)) \<Longrightarrow> distinct (map url (rows (run rs w)))"
  by (induction rs arbitrary: w) (simp_all add: distinct_step)

subsection \<open>Sessions\<close>

lemma generate_quiz_closes_session: "opened w \<notin> live (snd (generate_quiz e data w))"
  by (simp add: generate_quiz_def split_beta Let_def SessionLocal_def close_def)

lemma list_quizzes_closes_session:
  "db_down e = None \<Longrightarrow> opened w \<notin> live (snd (list_quizzes e w))"
  by (simp add: list_quizzes_def query_all_desc_def SessionLocal_def close_def)

lemma get_quiz_closes_session:
  "db_down e = None \<Longrightarrow> - 9223372036854775808 \<le> quiz_id \<Longrightarrow>
   quiz_id \<le> 9223372036854775807 \<Longrightarrow> opened w \<notin> live (snd (get_quiz e quiz_id w))"
  by (simp add: get_quiz_def query_first_def bind_int_def SessionLocal_def close_def Let_def
      split: option.splits)

subsection \<open>The concrete inputs, evaluated\<close>

lemmas example_defs = example_env_def later_env_def locked_env_def example_data_def
  example_data2_def example_page_def example_page2_def example_url_def example_url2_def

lemma example_scrape:
  "scrape_wikipedia example_env (data_url example_data) =
     Inr (''Alan Turing'', join [CHR 0x0A] (paragraphs example_page))"
  by (simp add: scrape_wikipedia_def scrape_try_def example_defs)

lemma example_scrape2:
  "scrape_wikipedia later_env (data_url example_data2) = Inr (''Ada Lovelace'', [])"
  by (simp add: scrape_wikipedia_def scrape_try_def example_defs)

lemma example_scrape_unknown:
  "scrape_try example_env ''https://example.org/missing'' =
     Inl (RequestException ''404 Client Error: Not Found'')"
  by (simp add: scrape_try_def example_defs)

lemma rows_one_quiz_world:
  "rows one_quiz_world =
     [\<lparr>url = example_url, title = ''Alan Turing'',
       content_excerpt = join [CHR 0x0A] (paragraphs example_page),
       quiz_data = [(''questions'', fst (generate_quiz_with_gemini ''Alan Turing'' [])),
                    (''related_topics'', snd (generate_quiz_with_gemini ''Alan Turing'' []))],
       qid = 1, created_at = 1700000000\<rparr>]"
proof -
  have "db_down example_env = None" and "data_url example_data \<notin> url ` set (rows init_world)"
    by (simp_all add: example_env_def init_world_def)
  from generate_quiz_committed [OF example_scrape this]
  show ?thesis
    by (simp add: one_quiz_world_def init_world_def next_id_def generate_quiz_with_gemini_def
        example_defs)
qed

lemma rows_two_quiz_world:
  "rows two_quiz_world = rows one_quiz_world @
     [\<lparr>url = example_url2, title = ''Ada Lovelace'', content_excerpt = [],
       quiz_data = [(''questions'', fst (generate_quiz_with_gemini ''Ada Lovelace'' [])),
                    (''related_topics'', snd (generate_quiz_with_gemini ''Ada Lovelace'' []))],
       qid = 2, created_at = 1700000600\<rparr>]"
proof -
  have "db_down later_env = None"
    and "data_url example_data2 \<notin> url ` set (rows one_quiz_world)"
    by (simp_all add: rows_one_quiz_world example_defs)
  from generate_quiz_committed [OF example_scrape2 this]
  show ?thesis
    by (simp add: two_quiz_world_def rows_one_quiz_world next_id_def example_defs)
qed

section \<open>Creating a quiz\<close>



text \<open>
  C2. Whenever \<^verbatim>\<open>POST /generate\<close> has returned a response, \<^verbatim>\<open>GET /quizzes/{id}\<close> for the
  \<^verbatim>\<open>id\<close> of that response returns, after any further requests \<open>rs\<close> and while the
  storage engine is available, the same \<^verbatim>\<open>quiz_data\<close> and \<^verbatim>\<open>related_topics\<close> (indeed
  the same response). Rows are added to the table by such calls only
  (\<open>rows_generate_quiz\<close>, \<open>rows_list_quizzes\<close>, \<open>rows_get_quiz\<close>).
\<close>

theorem get_returns_generated:
  assumes "fst (generate_quiz e data w) = Inr resp" and "db_down e' = None"
  shows "\<exists>got. fst (get_quiz e' (resp_id resp) (run rs (snd (generate_quiz e data w)))) = Inr got \<and>
           resp_quiz_data got = resp_quiz_data resp \<and>
           resp_related_topics got = resp_related_topics resp \<and> got = resp"
proof -
  let ?w' = "snd (generate_quiz e data w)"
  from assms(1) obtain ttl content where
    scr: "scrape_wikipedia e (data_url data) = Inr (ttl, content)" and up: "db_down e = None"
    and new: "data_url data \<notin> url ` set (rows w)"
    and fits: "next_id (rows w) \<le> 9223372036854775807"
    by (rule generate_quiz_Inr_cases)
  note st = generate_quiz_stored [OF scr up new fits]
  let ?r = "\<lparr>url = data_url data, title = ttl, content_excerpt = take 400 content,
          quiz_data = [(''questions'', fst (generate_quiz_with_gemini ttl content)),
                       (''related_topics'', snd (generate_quiz_with_gemini ttl content))],
          qid = next_id (rows w), created_at = now e\<rparr>"
  have resp: "resp = \<lparr>resp_id = next_id (rows w), resp_url = data_url data, resp_title = ttl,
           resp_quiz_data = fst (generate_quiz_with_gemini ttl content),
           resp_related_topics = snd (generate_quiz_with_gemini ttl content)\<rparr>"
    using assms(1) by (simp add: st)
  obtain zs where zs: "rows (run rs ?w') = rows ?w' @ zs" using rows_run by blast
  have rw': "rows ?w' = rows w @ [?r]" by (simp add: st)
  have rr: "rows (run rs ?w') = (rows w @ [?r]) @ zs" using zs rw' by simp
  have rid: "resp_id resp = next_id (rows w)" by (simp add: resp)
  have lo: "- 9223372036854775808 \<le> resp_id resp"
    using next_id_pos [of "rows w"] by (simp add: rid)
  have hi: "resp_id resp \<le> 9223372036854775807"
    using fits by (simp add: rid)
  have "find (\<lambda>q. qid q = resp_id resp) (rows (run rs ?w')) = Some ?r"
    unfolding rr rid by (rule find_append_old) (rule find_next_id, simp)
  then show ?thesis
    using get_quiz_up [OF assms(2) lo hi, of "run rs ?w'"]
    by (simp add: resp dict_get_def)
qed

theorem get_returns_generated_witness:
  "fst (generate_quiz example_env example_data init_world) =
     Inr \<lparr>resp_id = 1, resp_url = example_url, resp_title = ''Alan Turing'',
          resp_quiz_data = fst (generate_quiz_with_gemini ''Alan Turing'' []),
          resp_related_topics = snd (generate_quiz_with_gemini ''Alan Turing'' [])\<rparr> \<and>
   fst (get_quiz later_env 1
          (run [PostGenerate later_env example_data2]
             (snd (generate_quiz example_env example_data init_world)))) =
     Inr \<lparr>resp_id = 1, resp_url = example_url, resp_title = ''Alan Turing'',
          resp_quiz_data = fst (generate_quiz_with_gemini ''Alan Turing'' []),
          resp_related_topics = snd (generate_quiz_with_gemini ''Alan Turing'' [])\<rparr>"
proof -
  let ?resp = "\<lparr>resp_id = 1, resp_url = example_url, resp_title = ''Alan Turing'',
          resp_quiz_data = fst (generate_quiz_with_gemini ''Alan Turing'' []),
          resp_related_topics = snd (generate_quiz_with_gemini ''Alan Turing'' [])\<rparr>"
  have "db_down example_env = None" and "data_url example_data \<notin> url ` set (rows init_world)"
    by (simp_all add: example_env_def init_world_def)
  moreover have "next_id (rows init_world) \<le> 9223372036854775807"
    by (simp add: init_world_def next_id_def)
  ultimately
  have gen: "fst (generate_quiz example_env example_data init_world) = Inr ?resp"
    using generate_quiz_stored [OF example_scrape, of init_world]
    by (simp add: init_world_def next_id_def generate_quiz_with_gemini_def example_defs)
  have up: "db_down later_env = None" by (simp add: example_defs)
  from get_returns_generated [OF gen up, of "[PostGenerate later_env example_data2]"] gen
  show ?thesis by auto
qed

text \<open>
  C3. The URL is unique in the store. In a state that already holds a quiz with the
  URL of the request, \<^verbatim>\<open>POST /generate\<close> fails with HTTP 500 and the table keeps its
  rows; when the scraper succeeds and the engine is available, the failure is the
  engine's refusal of the insert (the \<^verbatim>\<open>IntegrityError\<close> of the unique constraint).
  Every create keeps the URLs of the table distinct, so they are distinct after any
  sequence of requests that starts with the empty table.
\<close>

theorem url_unique:
  "(data_url data \<in> url ` set (rows w) \<longrightarrow>
      (\<exists>d. fst (generate_quiz e data w) = Inl (HTTPException 500 d)) \<and>
      rows (snd (generate_quiz e data w)) = rows w) \<and>
   (data_url data \<in> url ` set (rows w) \<longrightarrow>
    scrape_wikipedia e (data_url data) = Inr (ttl, content) \<longrightarrow> db_down e = None \<longrightarrow>
      (\<forall>quiz_entry. url quiz_entry = data_url data \<longrightarrow>
         commit e quiz_entry (snd (SessionLocal w)) = Inl (IntegrityError (unique_violation e))) \<and>
      fst (generate_quiz e data w) =
        Inl (HTTPException 500 (str_exn (IntegrityError (unique_violation e))))) \<and>
   (distinct (map url (rows w)) \<longrightarrow>
      distinct (map url (rows (snd (generate_quiz e data w))))) \<and>
   distinct (map url (rows (run rs init_world)))"
proof (intro conjI impI allI)
  assume "data_url data \<in> url ` set (rows w)"
  then show "\<exists>d. fst (generate_quiz e data w) = Inl (HTTPException 500 d)"
    and "rows (snd (generate_quiz e data w)) = rows w"
    using generate_quiz_existing_url [of data w e] by simp_all
next
  fix quiz_entry :: QuizEntry
  assume "data_url data \<in> url ` set (rows w)" and "db_down e = None"
    and "url quiz_entry = data_url data"
  then show "commit e quiz_entry (snd (SessionLocal w)) = Inl (IntegrityError (unique_violation e))"
    by (simp add: commit_duplicate SessionLocal_def)
next
  assume "data_url data \<in> url ` set (rows w)"
    and "scrape_wikipedia e (data_url data) = Inr (ttl, content)" and "db_down e = None"
  then show "fst (generate_quiz e data w) =
      Inl (HTTPException 500 (str_exn (IntegrityError (unique_violation e))))"
    by (simp add: generate_quiz_duplicate)
next
  assume "distinct (map url (rows w))"
  then show "distinct (map url (rows (snd (generate_quiz e data w))))"
    by (rule distinct_generate_quiz)
next
  show "distinct (map url (rows (run rs init_world)))"
    by (rule distinct_run) (simp add: init_world_def)
qed

theorem url_unique_witness:
  "data_url example_data \<in> url ` set (rows one_quiz_world) \<and>
   fst (generate_quiz later_env example_data one_quiz_world) =
     Inl (HTTPException 500 ''UNIQUE constraint failed: quizzes.url'') \<and>
   rows (snd (generate_quiz later_env example_data one_quiz_world)) = rows one_quiz_world \<and>
   distinct (map url (rows two_quiz_world))"
proof -
  have stored: "data_url example_data \<in> url ` set (rows one_quiz_world)"
    by (simp add: rows_one_quiz_world example_defs)
  have scr: "scrape_wikipedia later_env (data_url example_data) =
      Inr (''Alan Turing'', join [CHR 0x0A] (paragraphs example_page))"
    by (simp add: scrape_wikipedia_def scrape_try_def example_defs)
  have up: "db_down later_env = None" by (simp add: example_defs)
  have d1: "distinct (map url (rows one_quiz_world))"
    by (simp add: rows_one_quiz_world)
  have two: "two_quiz_world = snd (generate_quiz later_env example_data2 one_quiz_world)"
    by (simp add: two_quiz_world_def)
  note u = url_unique [of example_data one_quiz_world later_env "''Alan Turing''"
      "join [CHR 0x0A] (paragraphs example_page)"]
  note u2 = url_unique [of example_data2 one_quiz_world later_env]
  from u stored scr up d1 u2 two show ?thesis
    by (simp add: example_defs)
qed

text \<open>
  C5. The content that \<^verbatim>\<open>scrape_wikipedia\<close> returns, which is what the synthesizer
  and the store receive, has at most 8000 characters; a create leaves the table as it
  is or appends one row whose \<^verbatim>\<open>content_excerpt\<close> is the first 400 characters of that
  content, so has at most 400 characters; so every
  row in the table, after any sequence of requests from the empty table, has an
  excerpt of at most 400 characters.
\<close>

theorem truncation_bounds:
  "(scrape_wikipedia e u = Inr (ttl, content) \<longrightarrow> length content \<le> 8000) \<and>
   (rows (snd (generate_quiz e data w)) = rows w \<or>
    (\<exists>ttl' content' q.
        scrape_wikipedia e (data_url data) = Inr (ttl', content') \<and>
        length content' \<le> 8000 \<and>
        rows (snd (generate_quiz e data w)) = rows w @ [q] \<and>
        content_excerpt q = take 400 content' \<and>
        length (content_excerpt q) \<le> 400)) \<and>
   (\<forall>q \<in> set (rows (run rs init_world)). length (content_excerpt q) \<le> 400)"
proof (intro conjI)
  show "scrape_wikipedia e u = Inr (ttl, content) \<longrightarrow> length content \<le> 8000"
    by (auto dest: length_scrape)
  show "rows (snd (generate_quiz e data w)) = rows w \<or>
    (\<exists>ttl' content' q.
        scrape_wikipedia e (data_url data) = Inr (ttl', content') \<and>
        length content' \<le> 8000 \<and>
        rows (snd (generate_quiz e data w)) = rows w @ [q] \<and>
        content_excerpt q = take 400 content' \<and>
        length (content_excerpt q) \<le> 400)"
    using rows_generate_quiz [of e data w] by (auto dest: length_scrape)
  have "\<forall>q \<in> set (rows init_world). length (content_excerpt q) \<le> 400"
    by (simp add: init_world_def)
  then show "\<forall>q \<in> set (rows (run rs init_world)). length (content_excerpt q) \<le> 400"
    by (rule excerpt_run)
qed

theorem truncation_bounds_witness:
  "scrape_wikipedia example_env (data_url example_data) =
     Inr (''Alan Turing'', join [CHR 0x0A] (paragraphs example_page)) \<and>
   length (join [CHR 0x0A] (paragraphs example_page)) \<le> 8000 \<and>
   rows (run [PostGenerate example_env example_data] init_world) \<noteq> [] \<and>
   list_all (\<lambda>q. length (content_excerpt q) \<le> 400)
     (rows (run [PostGenerate example_env example_data] init_world))"
proof -
  note t = truncation_bounds [of example_env "data_url example_data" "''Alan Turing''"
      "join [CHR 0x0A] (paragraphs example_page)" example_data init_world
      "[PostGenerate example_env example_data]"]
  have "rows (run [PostGenerate example_env example_data] init_world) \<noteq> []"
    using rows_one_quiz_world by (simp add: one_quiz_world_def)
  with t example_scrape show ?thesis by (simp add: list_all_iff)
qed

text \<open>
  C7. Every failure inside the \<^verbatim>\<open>try\<close> block of \<^verbatim>\<open>generate_quiz\<close> becomes an
  \<^verbatim>\<open>HTTPException\<close> with status 500 whose detail is the string form of the exception
  that reached the handler, whatever its kind: an exception of the scraper (which has
  wrapped the cause of a fetch or extraction failure in a generic \<^verbatim>\<open>Exception\<close>, so
  its string form is the prefix \<^verbatim>\<open>Error scraping Wikipedia: \<close> followed by the string
  form of the cause), or an exception of the store. The synthesizer is a total
  function and raises nothing. No failure of the handler has another status.
\<close>

theorem generate_quiz_failures_are_500:
  "(scrape_try e (data_url data) = Inl cause \<longrightarrow>
      scrape_wikipedia e (data_url data) =
        Inl (Exception (''Error scraping Wikipedia: '' @ str_exn cause))) \<and>
   (scrape_wikipedia e (data_url data) = Inl ex \<longrightarrow>
      fst (generate_quiz e data w) = Inl (HTTPException 500 (str_exn ex))) \<and>
   (scrape_wikipedia e (data_url data) = Inr (ttl, content) \<longrightarrow>
    commit e \<lparr>url = data_url data, title = ttl, content_excerpt = take 400 content,
              quiz_data = [(''questions'', fst (generate_quiz_with_gemini ttl content)),
                           (''related_topics'', snd (generate_quiz_with_gemini ttl content))]\<rparr>
      (snd (SessionLocal w)) = Inl ex' \<longrightarrow>
      fst (generate_quiz e data w) = Inl (HTTPException 500 (str_exn ex'))) \<and>
   (fst (generate_quiz_try e data (snd (SessionLocal w))) = Inl ex'' \<longrightarrow>
      fst (generate_quiz e data w) = Inl (HTTPException 500 (str_exn ex''))) \<and>
   (fst (generate_quiz e data w) = Inl f \<longrightarrow> (\<exists>d. f = HTTPException 500 d))"
proof (intro conjI impI)
  assume "scrape_try e (data_url data) = Inl cause"
  then show "scrape_wikipedia e (data_url data) =
      Inl (Exception (''Error scraping Wikipedia: '' @ str_exn cause))"
    by (simp add: scrape_wikipedia_def)
next
  assume "scrape_wikipedia e (data_url data) = Inl ex"
  then show "fst (generate_quiz e data w) = Inl (HTTPException 500 (str_exn ex))"
    by (simp add: generate_quiz_scrape_fail)
next
  assume "scrape_wikipedia e (data_url data) = Inr (ttl, content)"
    and "commit e \<lparr>url = data_url data, title = ttl, content_excerpt = take 400 content,
              quiz_data = [(''questions'', fst (generate_quiz_with_gemini ttl content)),
                           (''related_topics'', snd (generate_quiz_with_gemini ttl content))]\<rparr>
      (snd (SessionLocal w)) = Inl ex'"
  then show "fst (generate_quiz e data w) = Inl (HTTPException 500 (str_exn ex'))"
    by (simp add: fst_generate_quiz generate_quiz_try_def split_beta Let_def)
next
  assume "fst (generate_quiz_try e data (snd (SessionLocal w))) = Inl ex''"
  then show "fst (generate_quiz e data w) = Inl (HTTPException 500 (str_exn ex''))"
    by (simp add: fst_generate_quiz)
next
  assume "fst (generate_quiz e data w) = Inl f"
  then show "\<exists>d. f = HTTPException 500 d"
    by (auto simp: fst_generate_quiz split: sum.splits)
qed

theorem generate_quiz_failures_are_500_witness:
  "scrape_try example_env ''https://example.org/missing'' =
     Inl (RequestException ''404 Client Error: Not Found'') \<and>
   fst (generate_quiz example_env \<lparr>data_url = ''https://example.org/missing''\<rparr> init_world) =
     Inl (HTTPException 500 ''Error scraping Wikipedia: 404 Client Error: Not Found'') \<and>
   fst (generate_quiz locked_env example_data init_world) =
     Inl (HTTPException 500 ''database is locked'')"
proof -
  let ?missing = "\<lparr>data_url = ''https://example.org/missing''\<rparr>"
  let ?entry = "\<lparr>url = data_url example_data, title = ''Alan Turing'',
      content_excerpt = take 400 (join [CHR 0x0A] (paragraphs example_page)),
      quiz_data = [(''questions'', fst (generate_quiz_with_gemini ''Alan Turing''
                      (join [CHR 0x0A] (paragraphs example_page)))),
                   (''related_topics'', snd (generate_quiz_with_gemini ''Alan Turing''
                      (join [CHR 0x0A] (paragraphs example_page))))]\<rparr>"
  have cause: "scrape_try example_env (data_url ?missing) =
      Inl (RequestException ''404 Client Error: Not Found'')"
    using example_scrape_unknown by simp
  note a = generate_quiz_failures_are_500 [of example_env ?missing
      "RequestException ''404 Client Error: Not Found''"
      "Exception ''Error scraping Wikipedia: 404 Client Error: Not Found''" init_world]
  have scr: "scrape_wikipedia locked_env (data_url example_data) =
      Inr (''Alan Turing'', join [CHR 0x0A] (paragraphs example_page))"
    by (simp add: scrape_wikipedia_def scrape_try_def example_defs)
  have com: "commit locked_env ?entry (snd (SessionLocal init_world)) =
      Inl (OperationalError ''database is locked'')"
    by (simp add: commit_def locked_env_def)
  note b = generate_quiz_failures_are_500 [of locked_env example_data _ _ init_world
      "''Alan Turing''" "join [CHR 0x0A] (paragraphs example_page)"
      "OperationalError ''database is locked''"]
  from a cause b scr com show ?thesis by simp
qed

section \<open>Reading quizzes\<close>

text \<open>
  Reading by \<^verbatim>\<open>id\<close>, for a \<^verbatim>\<open>quiz_id\<close> that fits into 64 bits and while the storage
  engine is available: an \<^verbatim>\<open>id\<close> that no row has fails with status 404 and the detail
  \<^verbatim>\<open>Quiz not found\<close>; an \<^verbatim>\<open>id\<close> that a row has never fails in this way, and returns
  a response with that \<^verbatim>\<open>id\<close>.
\<close>

lemma get_quiz_in_range:
  "(db_down e = None \<longrightarrow> - 9223372036854775808 \<le> quiz_id \<longrightarrow>
    quiz_id \<le> 9223372036854775807 \<longrightarrow> quiz_id \<notin> qid ` set (rows w) \<longrightarrow>
      fst (get_quiz e quiz_id w) = Inl (HTTPException 404 ''Quiz not found'')) \<and>
   (quiz_id \<in> qid ` set (rows w) \<longrightarrow>
      fst (get_quiz e quiz_id w) \<noteq> Inl (HTTPException 404 ''Quiz not found'')) \<and>
   (db_down e = None \<longrightarrow> - 9223372036854775808 \<le> quiz_id \<longrightarrow>
    quiz_id \<le> 9223372036854775807 \<longrightarrow> quiz_id \<in> qid ` set (rows w) \<longrightarrow>
      (\<exists>resp. fst (get_quiz e quiz_id w) = Inr resp \<and> resp_id resp = quiz_id))"
proof (intro conjI impI)
  assume "db_down e = None" and "- 9223372036854775808 \<le> quiz_id"
    and "quiz_id \<le> 9223372036854775807" and "quiz_id \<notin> qid ` set (rows w)"
  moreover from this have "find (\<lambda>q. qid q = quiz_id) (rows w) = None"
    by (auto simp: find_None_iff)
  ultimately show "fst (get_quiz e quiz_id w) = Inl (HTTPException 404 ''Quiz not found'')"
    by (simp add: get_quiz_up)
next
  assume stored: "quiz_id \<in> qid ` set (rows w)"
  then obtain q where q: "find (\<lambda>q. qid q = quiz_id) (rows w) = Some q"
    by (cases "find (\<lambda>q. qid q = quiz_id) (rows w)") (auto simp: find_None_iff)
  show "fst (get_quiz e quiz_id w) \<noteq> Inl (HTTPException 404 ''Quiz not found'')"
    by (cases "db_down e")
      (simp_all add: q get_quiz_def query_first_def bind_int_def SessionLocal_def close_def)
next
  assume up: "db_down e = None" and lo: "- 9223372036854775808 \<le> quiz_id"
    and hi: "quiz_id \<le> 9223372036854775807" and stored: "quiz_id \<in> qid ` set (rows w)"
  then obtain q where q: "find (\<lambda>q. qid q = quiz_id) (rows w) = Some q"
    by (cases "find (\<lambda>q. qid q = quiz_id) (rows w)") (auto simp: find_None_iff)
  then have "qid q = quiz_id" by (auto simp: find_Some_iff)
  then show "\<exists>resp. fst (get_quiz e quiz_id w) = Inr resp \<and> resp_id resp = quiz_id"
    by (simp add: get_quiz_up [OF up lo hi] q)
qed

text \<open>
  C4. \<^verbatim>\<open>GET /quizzes/{id}\<close> for an \<^verbatim>\<open>id\<close> that no row has should fail with status 404
  and the detail \<^verbatim>\<open>Quiz not found\<close>. It does for every \<^verbatim>\<open>id\<close> that fits into 64 bits
  (\<open>get_quiz_in_range\<close>). The handler accepts any \<^verbatim>\<open>int\<close>, though, and hands it to
  the query unchecked: for \<^verbatim>\<open>quiz_id\<close> = \<open>2\<^sup>6\<^sup>3\<close>, which no row has, the driver
  raises \<^verbatim>\<open>OverflowError\<close> while the engine is available, nothing catches it, the
  line \<^verbatim>\<open>raise HTTPException(status_code=404, ...)\<close> is not reached, and the session
  stays open.
\<close>

theorem get_quiz_overflow_not_404:
  "db_down example_env = None \<and>
   9223372036854775808 \<notin> qid ` set (rows two_quiz_world) \<and>
   fst (get_quiz example_env 9223372036854775808 two_quiz_world) =
     Inl (Unhandled (OverflowError ''Python int too large to convert to SQLite INTEGER'')) \<and>
   fst (get_quiz example_env 9223372036854775808 two_quiz_world) \<noteq>
     Inl (HTTPException 404 ''Quiz not found'') \<and>
   opened two_quiz_world \<in> live (snd (get_quiz example_env 9223372036854775808 two_quiz_world)) \<and>
   fst (get_quiz example_env 7 two_quiz_world) = Inl (HTTPException 404 ''Quiz not found'')"
proof -
  have up: "db_down example_env = None" by (simp add: example_defs)
  have absent: "9223372036854775808 \<notin> qid ` set (rows two_quiz_world)"
    and absent7: "7 \<notin> qid ` set (rows two_quiz_world)"
    by (simp_all add: rows_two_quiz_world rows_one_quiz_world)
  have over: "get_quiz example_env 9223372036854775808 two_quiz_world =
     (Inl (Unhandled (OverflowError ''Python int too large to convert to SQLite INTEGER'')),
      two_quiz_world\<lparr>live := insert (opened two_quiz_world) (live two_quiz_world),
        opened := opened two_quiz_world + 1\<rparr>)"
    by (rule get_quiz_overflow) simp
  have seven: "fst (get_quiz example_env 7 two_quiz_world) =
      Inl (HTTPException 404 ''Quiz not found'')"
    using get_quiz_in_range [of example_env 7 two_quiz_world] up absent7 by simp
  show ?thesis
    using up absent seven by (simp add: over)
qed

text \<open>
  C6. In every state of the store, while the storage engine is available,
  \<^verbatim>\<open>GET /quizzes\<close> returns the summaries of all rows, each as often as it is stored,
  in descending order of \<^verbatim>\<open>created_at\<close>.
\<close>

theorem list_quizzes_newest_first:
  assumes "db_down e = None"
  shows "\<exists>out. fst (list_quizzes e w) = Inr out \<and>
           mset out = mset (map summary (rows w)) \<and>
           sorted_wrt (\<lambda>a b. sum_created_at a \<ge> sum_created_at b) out"
proof -
  let ?qs = "sort_key (\<lambda>q. - created_at q) (rows w)"
  have "sorted (map (\<lambda>q. - created_at q) ?qs)" by (rule sorted_sort_key)
  then have "sorted_wrt (\<lambda>a b. created_at b \<le> created_at a) ?qs"
    by (simp add: sorted_map)
  then have "sorted_wrt (\<lambda>a b. sum_created_at a \<ge> sum_created_at b) (map summary ?qs)"
    by (simp add: sorted_wrt_map summary_def)
  moreover have "mset (map summary ?qs) = mset (map summary (rows w))"
    by simp
  ultimately show ?thesis
    using list_quizzes_up [OF assms, of w] by simp
qed

theorem list_quizzes_newest_first_witness:
  "db_down example_env = None \<and>
   (\<exists>out. fst (list_quizzes example_env two_quiz_world) = Inr out \<and>
      mset out = mset (map summary (rows two_quiz_world)) \<and>
      sorted_wrt (\<lambda>a b. sum_created_at a \<ge> sum_created_at b) out \<and>
      map sum_id out = [2, 1])"
proof -
  have up: "db_down example_env = None" by (simp add: example_defs)
  have ids: "map sum_id (map summary (sort_key (\<lambda>q. - created_at q) (rows two_quiz_world)))
      = [2, 1]"
    by (simp add: rows_two_quiz_world rows_one_quiz_world summary_def)
  from list_quizzes_newest_first [OF up, of two_quiz_world] ids up
  show ?thesis by (auto simp: list_quizzes_up)
qed

section \<open>Sessions are not always closed\<close>

text \<open>
  C8. Each of the three handlers should close the session it opened, whether it
  succeeds or fails. \<^verbatim>\<open>generate_quiz\<close> does (\<open>generate_quiz_closes_session\<close>: its
  \<^verbatim>\<open>db.close()\<close> is in a \<^verbatim>\<open>finally\<close>), and the other two do when their query returns
  (\<open>list_quizzes_closes_session\<close>, \<open>get_quiz_closes_session\<close>). But in
  \<^verbatim>\<open>list_quizzes\<close> and \<^verbatim>\<open>get_quiz\<close> the call of \<^verbatim>\<open>db.close()\<close> simply follows the
  query: when the query raises, the session stays open. Here the engine is
  unavailable and the table empty: session 0 is still open after \<^verbatim>\<open>GET /quizzes\<close> and
  after \<^verbatim>\<open>GET /quizzes/1\<close>, and closed after \<^verbatim>\<open>POST /generate\<close>.
\<close>

theorem list_quizzes_leaves_session_open:
  "list_quizzes locked_env init_world =
     (Inl (Unhandled (OperationalError ''database is locked'')),
      \<lparr>rows = [], live = {0}, opened = 1\<rparr>) \<and>
   get_quiz locked_env 1 init_world =
     (Inl (Unhandled (OperationalError ''database is locked'')),
      \<lparr>rows = [], live = {0}, opened = 1\<rparr>) \<and>
   generate_quiz locked_env example_data init_world =
     (Inl (HTTPException 500 ''database is locked''),
      \<lparr>rows = [], live = {}, opened = 1\<rparr>)"
proof -
  have down: "db_down locked_env = Some ''database is locked''"
    by (simp add: locked_env_def)
  have scr: "scrape_wikipedia locked_env (data_url example_data) =
      Inr (''Alan Turing'', take 8000 (join [CHR 0x0A] (paragraphs example_page)))"
    by (simp add: scrape_wikipedia_def scrape_try_def locked_env_def example_env_def
        example_data_def example_page_def)
  show ?thesis
    by (simp add: list_quizzes_down [OF down] get_quiz_down [OF down, of 1]
        generate_quiz_down [OF scr down] init_world_def)
qed

section \<open>The synthesizer\<close>

text \<open>
  C9. The quiz synthesizer does not look at its content parameter: for every title
  and every two content strings it returns the same question records and the same
  related topics.
\<close>

theorem synthesizer_ignores_content:
  "generate_quiz_with_gemini ttl content1 = generate_quiz_with_gemini ttl content2"
  by (simp add: generate_quiz_with_gemini_def)

text \<open>
  C10. For every title and content, the synthesizer returns a list of question
  records in each of which \<^verbatim>\<open>correct_answer\<close> is a key of \<^verbatim>\<open>options\<close>.
\<close>

theorem answer_among_options:
  "\<exists>qs. fst (generate_quiz_with_gemini ttl content) = PyList qs \<and> list_all answer_is_option qs"
  by (simp add: generate_quiz_with_gemini_def answer_is_option_def)

end
